theory Spec2Isabelle
  imports Main "HOL-Library.Word"
begin

section \<open>Python values handled by \<open>telethon/types/_custom/button.py\<close>\<close>

text \<open>
  A Python \<open>str\<close> is a list of Unicode code points, a \<open>bytes\<close> object a list of
  octets. Exceptions are values of type \<open>error\<close>; a function that may raise returns
  \<open>error + 'a\<close> with \<open>Inl\<close> for the exception.
\<close>

type_synonym pystr = "nat list"
type_synonym pybytes = "8 word list"

datatype error =
    ValueError string
  | AttributeError
  | TypeError
  | IndexError
  | UnicodeEncodeError

text \<open>
  The objects that reach the module. \<open>PyList\<close> stands for the list-like containers,
  \<open>Button\<close> is the class of the module itself (fields \<open>button\<close>, \<open>resize\<close>,
  \<open>single_use\<close>, \<open>selective\<close>), \<open>MessageButton\<close> the wrapper class it imports (field
  \<open>button\<close>), and the remaining constructors are the classes of the generated \<open>_tl\<close>
  package that the module names, with the arguments in the order the module passes them.
  \<open>TLObject name tag\<close> is any other generated class, with its \<open>SUBCLASS_OF_ID\<close>.
\<close>

datatype pyobj =
    PyNone
  | PyStr pystr
  | PyList "pyobj list"
  | Button pyobj "bool option" "bool option" "bool option"
  | MessageButton pyobj
  | KeyboardButton pystr
  | KeyboardButtonUrl pystr pystr
  | KeyboardButtonCallback pystr pybytes
  | KeyboardButtonSwitchInline pystr pystr bool
  | KeyboardButtonGame pystr
  | KeyboardButtonBuy pystr
  | KeyboardButtonUserProfile pystr int
  | KeyboardButtonRequestPhone pystr
  | KeyboardButtonRequestGeoLocation pystr
  | KeyboardButtonRequestPoll pystr bool
  | InputKeyboardButtonUrlAuth pystr pystr pyobj bool "pystr option"
  | InputKeyboardButtonUserProfile pystr pyobj
  | InputUserSelf
  | KeyboardButtonRow "pyobj list"
  | ReplyInlineMarkup "pyobj list"
  | ReplyKeyboardMarkup "pyobj list" "bool option" "bool option" "bool option"
  | ReplyKeyboardHide "bool option"
  | ReplyKeyboardForceReply "bool option" "bool option" "pystr option"
  | TLObject pystr "32 word"

text \<open>The argument \<open>data\<close> of \<open>Button.inline\<close>: omitted, a bytes object or a str.\<close>

datatype data_arg = NoData | BytesData pybytes | StrData pystr

subsection \<open>Built-in behaviour of Python\<close>

text \<open>\<open>str.encode('utf-8')\<close>: one to four octets per code point, surrogates refused.\<close>

definition utf8_char :: "nat \<Rightarrow> error + pybytes" where
  "utf8_char c =
     (if c < 0x80 then Inr [of_nat c]
      else if c < 0x800 then Inr [of_nat (0xC0 + c div 0x40), of_nat (0x80 + c mod 0x40)]
      else if 0xD800 \<le> c \<and> c < 0xE000 then Inl UnicodeEncodeError
      else if c < 0x10000 then
        Inr [of_nat (0xE0 + c div 0x1000), of_nat (0x80 + c div 0x40 mod 0x40),
             of_nat (0x80 + c mod 0x40)]
      else if c < 0x110000 then
        Inr [of_nat (0xF0 + c div 0x40000), of_nat (0x80 + c div 0x1000 mod 0x40),
             of_nat (0x80 + c div 0x40 mod 0x40), of_nat (0x80 + c mod 0x40)]
      else Inl UnicodeEncodeError)"

fun encode_utf8 :: "pystr \<Rightarrow> error + pybytes" where
  "encode_utf8 [] = Inr []"
| "encode_utf8 (c # cs) =
     (case utf8_char c of
        Inl e \<Rightarrow> Inl e
      | Inr b \<Rightarrow> (case encode_utf8 cs of Inl e \<Rightarrow> Inl e | Inr bs \<Rightarrow> Inr (b @ bs)))"

text \<open>A str literal of the source, written with the characters of its ASCII text.\<close>

definition str :: "string \<Rightarrow> pystr" where
  "str s = map of_char s"

text \<open>
  Truth value of an object (\<open>not x\<close>, \<open>x or y\<close>): \<open>None\<close> and the empty str and list
  are false; instances of the classes above define neither \<open>__bool__\<close> nor \<open>__len__\<close>.
\<close>

fun truthy :: "pyobj \<Rightarrow> bool" where
  "truthy PyNone = False"
| "truthy (PyStr s) = (s \<noteq> [])"
| "truthy (PyList xs) = (xs \<noteq> [])"
| "truthy _ = True"

text \<open>
  \<open>for x in obj\<close>: a list yields its items, a str its characters as strs of length
  one, and the other objects are not iterable.
\<close>

fun py_iter :: "pyobj \<Rightarrow> error + pyobj list" where
  "py_iter (PyList xs) = Inr xs"
| "py_iter (PyStr s) = Inr (map (\<lambda>c. PyStr [c]) s)"
| "py_iter _ = Inl TypeError"

subsection \<open>Collaborators outside the module\<close>

text \<open>
  Modelled from the spec: \<open>utils.is_list_like\<close> of \<open>_misc/utils.py\<close>, which is not part
  of the sources at hand. Any sequence-like value, raw text excluded, is a sequence.
\<close>

fun is_list_like :: "pyobj \<Rightarrow> bool" where
  "is_list_like (PyList xs) = True"
| "is_list_like _ = False"

text \<open>
  Modelled from the spec: the class attribute \<open>SUBCLASS_OF_ID\<close> of the generated \<open>_tl\<close>
  classes, which are not part of the sources at hand. It is the CRC32 of the name of the
  protocol type the class belongs to: \<open>0xbad74a3\<close> for \<open>KeyboardButton\<close> and \<open>0xe2e10ef2\<close>
  for \<open>ReplyMarkup\<close>, as the comments of \<open>build_reply_markup\<close> say. Reading the
  attribute from any other object raises \<open>AttributeError\<close>.
\<close>

fun SUBCLASS_OF_ID :: "pyobj \<Rightarrow> error + 32 word" where
  "SUBCLASS_OF_ID (KeyboardButton _) = Inr 0xbad74a3"
| "SUBCLASS_OF_ID (KeyboardButtonUrl _ _) = Inr 0xbad74a3"
| "SUBCLASS_OF_ID (KeyboardButtonCallback _ _) = Inr 0xbad74a3"
| "SUBCLASS_OF_ID (KeyboardButtonSwitchInline _ _ _) = Inr 0xbad74a3"
| "SUBCLASS_OF_ID (KeyboardButtonGame _) = Inr 0xbad74a3"
| "SUBCLASS_OF_ID (KeyboardButtonBuy _) = Inr 0xbad74a3"
| "SUBCLASS_OF_ID (KeyboardButtonUserProfile _ _) = Inr 0xbad74a3"
| "SUBCLASS_OF_ID (KeyboardButtonRequestPhone _) = Inr 0xbad74a3"
| "SUBCLASS_OF_ID (KeyboardButtonRequestGeoLocation _) = Inr 0xbad74a3"
| "SUBCLASS_OF_ID (KeyboardButtonRequestPoll _ _) = Inr 0xbad74a3"
| "SUBCLASS_OF_ID (InputKeyboardButtonUrlAuth _ _ _ _ _) = Inr 0xbad74a3"
| "SUBCLASS_OF_ID (InputKeyboardButtonUserProfile _ _) = Inr 0xbad74a3"
| "SUBCLASS_OF_ID InputUserSelf = Inr 0xe669bf46"
| "SUBCLASS_OF_ID (KeyboardButtonRow _) = Inr 0x847730ae"
| "SUBCLASS_OF_ID (ReplyInlineMarkup _) = Inr 0xe2e10ef2"
| "SUBCLASS_OF_ID (ReplyKeyboardMarkup _ _ _ _) = Inr 0xe2e10ef2"
| "SUBCLASS_OF_ID (ReplyKeyboardHide _) = Inr 0xe2e10ef2"
| "SUBCLASS_OF_ID (ReplyKeyboardForceReply _ _ _) = Inr 0xe2e10ef2"
| "SUBCLASS_OF_ID (TLObject _ tag) = Inr tag"
| "SUBCLASS_OF_ID PyNone = Inl AttributeError"
| "SUBCLASS_OF_ID (PyStr _) = Inl AttributeError"
| "SUBCLASS_OF_ID (PyList _) = Inl AttributeError"
| "SUBCLASS_OF_ID (Button _ _ _ _) = Inl AttributeError"
| "SUBCLASS_OF_ID (MessageButton _) = Inl AttributeError"

section \<open>The class \<open>Button\<close>\<close>

text \<open>\<open>Button._is_inline\<close>: an \<open>isinstance\<close> test against seven classes.\<close>

fun Button_is_inline :: "pyobj \<Rightarrow> bool" where
  "Button_is_inline (KeyboardButtonBuy _) = True"
| "Button_is_inline (KeyboardButtonCallback _ _) = True"
| "Button_is_inline (KeyboardButtonGame _) = True"
| "Button_is_inline (KeyboardButtonSwitchInline _ _ _) = True"
| "Button_is_inline (KeyboardButtonUserProfile _ _) = True"
| "Button_is_inline (KeyboardButtonUrl _ _) = True"
| "Button_is_inline (InputKeyboardButtonUrlAuth _ _ _ _ _) = True"
| "Button_is_inline _ = False"

text \<open>
  \<open>Button.inline(text, data=None)\<close>. An absent or empty \<open>data\<close> is replaced by the
  encoded \<open>text\<close>, a str is encoded, and more than 64 octets are refused.
\<close>

definition Button_inline :: "pystr \<Rightarrow> data_arg \<Rightarrow> error + pyobj" where
  "Button_inline text data =
     (case (case data of
              NoData \<Rightarrow> encode_utf8 text
            | BytesData d \<Rightarrow> if d = [] then encode_utf8 text else Inr d
            | StrData s \<Rightarrow> if s = [] then encode_utf8 text else encode_utf8 s) of
        Inl e \<Rightarrow> Inl e
      | Inr d \<Rightarrow>
          if length d > 64 then Inl (ValueError ''Too many bytes for the data'')
          else Inr (KeyboardButtonCallback text d))"

definition Button_switch_inline :: "pystr \<Rightarrow> pystr \<Rightarrow> bool \<Rightarrow> pyobj" where
  "Button_switch_inline text query same_peer = KeyboardButtonSwitchInline text query same_peer"

definition Button_url :: "pystr \<Rightarrow> pystr option \<Rightarrow> pyobj" where
  "Button_url text url =
     KeyboardButtonUrl text (case url of None \<Rightarrow> text | Some u \<Rightarrow> if u = [] then text else u)"

definition Button_text :: "pystr \<Rightarrow> bool option \<Rightarrow> bool option \<Rightarrow> bool option \<Rightarrow> pyobj" where
  "Button_text text resize single_use selective =
     Button (KeyboardButton text) resize single_use selective"

definition Button_request_location ::
  "pystr \<Rightarrow> bool option \<Rightarrow> bool option \<Rightarrow> bool option \<Rightarrow> pyobj" where
  "Button_request_location text resize single_use selective =
     Button (KeyboardButtonRequestGeoLocation text) resize single_use selective"

definition Button_request_phone ::
  "pystr \<Rightarrow> bool option \<Rightarrow> bool option \<Rightarrow> bool option \<Rightarrow> pyobj" where
  "Button_request_phone text resize single_use selective =
     Button (KeyboardButtonRequestPhone text) resize single_use selective"

definition Button_request_poll ::
  "pystr \<Rightarrow> bool \<Rightarrow> bool option \<Rightarrow> bool option \<Rightarrow> bool option \<Rightarrow> pyobj" where
  "Button_request_poll text force_quiz resize single_use selective =
     Button (KeyboardButtonRequestPoll text force_quiz) resize single_use selective"

definition Button_clear :: "bool option \<Rightarrow> pyobj" where
  "Button_clear selective = ReplyKeyboardHide selective"

definition Button_force_reply :: "bool option \<Rightarrow> bool option \<Rightarrow> pystr option \<Rightarrow> pyobj" where
  "Button_force_reply single_use selective placeholder =
     ReplyKeyboardForceReply single_use selective placeholder"

definition Button_buy :: "pystr \<Rightarrow> pyobj" where
  "Button_buy text = KeyboardButtonBuy text"

definition Button_game :: "pystr \<Rightarrow> pyobj" where
  "Button_game text = KeyboardButtonGame text"

text \<open>
  \<open>Button.auth\<close> and \<open>Button.mention\<close> resolve a user through \<open>utils.get_input_user\<close>,
  which belongs to the client and is a parameter here; its exceptions pass through.
\<close>

definition Button_auth ::
  "(pyobj \<Rightarrow> error + pyobj) \<Rightarrow> pystr \<Rightarrow> pystr option \<Rightarrow> pyobj \<Rightarrow> bool \<Rightarrow> pystr option
     \<Rightarrow> error + pyobj" where
  "Button_auth get_input_user text url bot0 write_access fwd_text =
     (case get_input_user (if truthy bot0 then bot0 else InputUserSelf) of
        Inl e \<Rightarrow> Inl e
      | Inr u \<Rightarrow>
          Inr (InputKeyboardButtonUrlAuth text
                 (case url of None \<Rightarrow> text | Some v \<Rightarrow> if v = [] then text else v)
                 u write_access fwd_text))"

definition Button_mention :: "(pyobj \<Rightarrow> error + pyobj) \<Rightarrow> pystr \<Rightarrow> pyobj \<Rightarrow> error + pyobj" where
  "Button_mention get_input_user text input_entity =
     (case get_input_user (if truthy input_entity then input_entity else InputUserSelf) of
        Inl e \<Rightarrow> Inl e
      | Inr u \<Rightarrow> Inr (InputKeyboardButtonUserProfile text u))"

section \<open>\<open>build_reply_markup\<close>\<close>

text \<open>The local variables of \<open>build_reply_markup\<close> that its loops update.\<close>

record builder =
  is_inline :: bool
  is_normal :: bool
  resize :: "bool option"
  single_use :: "bool option"
  selective :: "bool option"
  rows :: "pyobj list"

definition builder_init :: builder where
  "builder_init =
     \<lparr>is_inline = False, is_normal = False, resize = None, single_use = None,
      selective = None, rows = []\<rparr>"

text \<open>
  The body of the inner loop, on one \<open>button\<close> of a row, with the list \<open>current\<close> of
  the row: a \<open>Button\<close> hands its hints that are not \<open>None\<close> to the builder and is
  replaced by its field \<open>button\<close>, a \<open>MessageButton\<close> is replaced by its field
  \<open>button\<close>; the object is classified, and it is appended to \<open>current\<close> when its
  \<open>SUBCLASS_OF_ID\<close> is the one of \<open>KeyboardButton\<close>.
\<close>

definition visit_button :: "pyobj \<Rightarrow> builder \<times> pyobj list \<Rightarrow> error + builder \<times> pyobj list" where
  "visit_button button0 sc =
     (case sc of (st, current) \<Rightarrow>
        (case (case button0 of
                 Button b r s t \<Rightarrow>
                   (st\<lparr>resize := (if r \<noteq> None then r else resize st),
                       single_use := (if s \<noteq> None then s else single_use st),
                       selective := (if t \<noteq> None then t else selective st)\<rparr>, b)
               | MessageButton b \<Rightarrow> (st, b)
               | _ \<Rightarrow> (st, button0)) of
           (st1, button) \<Rightarrow>
             (let inline = Button_is_inline button;
                  st2 = st1\<lparr>is_inline := is_inline st1 \<or> inline,
                            is_normal := is_normal st1 \<or> \<not> inline\<rparr>
              in case SUBCLASS_OF_ID button of
                   Inl e \<Rightarrow> Inl e
                 | Inr tag \<Rightarrow>
                     Inr (st2, if tag = 0xbad74a3 then current @ [button] else current))))"

fun for_buttons :: "pyobj list \<Rightarrow> builder \<times> pyobj list \<Rightarrow> error + builder \<times> pyobj list" where
  "for_buttons [] sc = Inr sc"
| "for_buttons (b # bs) sc =
     (case visit_button b sc of Inl e \<Rightarrow> Inl e | Inr sc' \<Rightarrow> for_buttons bs sc')"

text \<open>The body of the outer loop: a row that kept no button adds nothing to \<open>rows\<close>.\<close>

definition visit_row :: "pyobj \<Rightarrow> builder \<Rightarrow> error + builder" where
  "visit_row row st =
     (case py_iter row of
        Inl e \<Rightarrow> Inl e
      | Inr bs \<Rightarrow>
          (case for_buttons bs (st, []) of
             Inl e \<Rightarrow> Inl e
           | Inr (st', current) \<Rightarrow>
               Inr (if current \<noteq> [] then st'\<lparr>rows := rows st' @ [KeyboardButtonRow current]\<rparr>
                    else st')))"

fun for_rows :: "pyobj list \<Rightarrow> builder \<Rightarrow> error + builder" where
  "for_rows [] st = Inr st"
| "for_rows (r # rs) st =
     (case visit_row r st of Inl e \<Rightarrow> Inl e | Inr st' \<Rightarrow> for_rows rs st')"

text \<open>
  The two statements that bring \<open>buttons\<close> into the shape of a list of rows: an object
  that is not list-like is put into a list, and when the first item of the list is not
  list-like every item is put into a list of its own.
\<close>

definition normalize :: "pyobj \<Rightarrow> error + pyobj list" where
  "normalize buttons =
     (let buttons1 = (case buttons of PyList xs \<Rightarrow> xs | _ \<Rightarrow> [buttons])
      in case buttons1 of
           [] \<Rightarrow> Inl IndexError
         | b0 # _ \<Rightarrow>
             Inr (if \<not> is_list_like b0 then map (\<lambda>b. PyList [b]) buttons1 else buttons1))"

text \<open>The checks after the loops, and the markup that is returned.\<close>

definition finish :: "bool \<Rightarrow> builder \<Rightarrow> error + pyobj" where
  "finish inline_only st =
     (if inline_only \<and> is_normal st then
        Inl (ValueError ''You cannot use non-inline buttons here'')
      else if is_inline st = is_normal st \<and> is_normal st then
        Inl (ValueError ''You cannot mix inline with normal buttons'')
      else if is_inline st then Inr (ReplyInlineMarkup (rows st))
      else Inr (ReplyKeyboardMarkup (rows st) (resize st) (single_use st) (selective st)))"

definition build_reply_markup :: "pyobj \<Rightarrow> bool \<Rightarrow> error + pyobj" where
  "build_reply_markup buttons inline_only =
     (if \<not> truthy buttons then Inr PyNone
      else if SUBCLASS_OF_ID buttons = Inr 0xe2e10ef2 then Inr buttons
      else
        (case normalize buttons of
           Inl e \<Rightarrow> Inl e
         | Inr grid \<Rightarrow>
             (case for_rows grid builder_init of
                Inl e \<Rightarrow> Inl e
              | Inr st \<Rightarrow> finish inline_only st)))"

section \<open>Vocabulary of the properties\<close>

text \<open>
  What the inner loop makes of one item of a row: the object that is classified and
  kept (\<open>unwrap\<close>), and the three hints the item hands over (\<open>None\<close> unless the item is a
  \<open>Button\<close>).
\<close>

fun unwrap :: "pyobj \<Rightarrow> pyobj" where
  "unwrap (Button b _ _ _) = b"
| "unwrap (MessageButton b) = b"
| "unwrap b = b"

fun resize_of :: "pyobj \<Rightarrow> bool option" where
  "resize_of (Button _ r _ _) = r"
| "resize_of _ = None"

fun single_use_of :: "pyobj \<Rightarrow> bool option" where
  "single_use_of (Button _ _ s _) = s"
| "single_use_of _ = None"

fun selective_of :: "pyobj \<Rightarrow> bool option" where
  "selective_of (Button _ _ _ t) = t"
| "selective_of _ = None"

text \<open>
  An item is \<open>tagged\<close> when the object it stands for has a \<open>SUBCLASS_OF_ID\<close> at all, a
  button (\<open>is_button\<close>) when that is the one of \<open>KeyboardButton\<close>, and of the inline
  category (\<open>inline_cat\<close>) when \<open>Button._is_inline\<close> says so; every other item counts as
  keyboard category.
\<close>

definition tagged :: "pyobj \<Rightarrow> bool" where
  "tagged b = (case SUBCLASS_OF_ID (unwrap b) of Inl _ \<Rightarrow> False | Inr _ \<Rightarrow> True)"

definition is_button :: "pyobj \<Rightarrow> bool" where
  "is_button b = (SUBCLASS_OF_ID (unwrap b) = Inr 0xbad74a3)"

definition inline_cat :: "pyobj \<Rightarrow> bool" where
  "inline_cat b = Button_is_inline (unwrap b)"

text \<open>The last value of a sequence of hints that is not absent, \<open>None\<close> when all are.\<close>

definition last_non_absent :: "'a option list \<Rightarrow> 'a option" where
  "last_non_absent hs =
     (if filter (\<lambda>h. h \<noteq> None) hs = [] then None else last (filter (\<lambda>h. h \<noteq> None) hs))"

text \<open>
  The rows of the markup for a grid of items: of each row the buttons, unwrapped, in
  order; rows without a button left out.
\<close>

definition rows_of :: "pyobj list list \<Rightarrow> pyobj list" where
  "rows_of grid =
     map KeyboardButtonRow
       (filter (\<lambda>r. r \<noteq> []) (map (\<lambda>r. map unwrap (filter is_button r)) grid))"

text \<open>The builder after the items \<open>bs\<close> have been visited, but for its \<open>rows\<close>.\<close>

definition summary :: "builder \<Rightarrow> pyobj list \<Rightarrow> builder" where
  "summary st bs =
     st\<lparr>resize := last_non_absent (resize st # map resize_of bs),
        single_use := last_non_absent (single_use st # map single_use_of bs),
        selective := last_non_absent (selective st # map selective_of bs),
        is_inline := is_inline st \<or> list_ex inline_cat bs,
        is_normal := is_normal st \<or> list_ex (\<lambda>b. \<not> inline_cat b) bs\<rparr>"

text \<open>
  \<open>reads_as buttons grid\<close>: the argument \<open>buttons\<close> is not returned at once, the two
  shaping statements make of it the rows \<open>grid\<close>, each row a list, and every item is
  tagged.
\<close>

definition reads_as :: "pyobj \<Rightarrow> pyobj list list \<Rightarrow> bool" where
  "reads_as buttons grid \<longleftrightarrow>
     truthy buttons \<and> SUBCLASS_OF_ID buttons \<noteq> Inr 0xe2e10ef2 \<and>
     normalize buttons = Inr (map PyList grid) \<and> list_all (list_all tagged) grid"

text \<open>
  The category invariant of a markup: the rows of an inline markup hold objects of the
  inline category only, those of a keyboard markup objects of the other category only.
\<close>

definition row_cat :: "bool \<Rightarrow> pyobj \<Rightarrow> bool" where
  "row_cat inl row =
     (case row of KeyboardButtonRow bs \<Rightarrow> list_all (\<lambda>b. Button_is_inline b = inl) bs
      | _ \<Rightarrow> False)"

definition category_invariant :: "pyobj \<Rightarrow> bool" where
  "category_invariant m =
     (case m of
        ReplyInlineMarkup rs \<Rightarrow> list_all (row_cat True) rs
      | ReplyKeyboardMarkup rs _ _ _ \<Rightarrow> list_all (row_cat False) rs
      | _ \<Rightarrow> True)"

text \<open>The same for a builder in the middle of a row, \<open>current\<close> included.\<close>

definition builder_invariant :: "builder \<Rightarrow> pyobj list \<Rightarrow> bool" where
  "builder_invariant st current \<longleftrightarrow>
     (\<not> is_normal st \<longrightarrow>
        list_all (\<lambda>b. Button_is_inline b = True) current \<and> list_all (row_cat True) (rows st)) \<and>
     (\<not> is_inline st \<longrightarrow>
        list_all (\<lambda>b. Button_is_inline b = False) current \<and> list_all (row_cat False) (rows st))"

text \<open>
  The inline category as the docstrings of the class give it: the buttons that \<open>inline\<close>,
  \<open>switch_inline\<close>, \<open>url\<close>, \<open>auth\<close>, \<open>mention\<close>, \<open>buy\<close> and \<open>game\<close> create, and the
  profile button as a message carries it. \<open>Button._is_inline\<close> differs on one class: it
  lists \<open>KeyboardButtonUserProfile\<close>, while \<open>Button.mention\<close> creates an
  \<open>InputKeyboardButtonUserProfile\<close> (\<open>profile_input\<close>).
\<close>

fun documented_inline :: "pyobj \<Rightarrow> bool" where
  "documented_inline (KeyboardButtonCallback _ _) = True"
| "documented_inline (KeyboardButtonSwitchInline _ _ _) = True"
| "documented_inline (KeyboardButtonUrl _ _) = True"
| "documented_inline (InputKeyboardButtonUrlAuth _ _ _ _ _) = True"
| "documented_inline (InputKeyboardButtonUserProfile _ _) = True"
| "documented_inline (KeyboardButtonUserProfile _ _) = True"
| "documented_inline (KeyboardButtonBuy _) = True"
| "documented_inline (KeyboardButtonGame _) = True"
| "documented_inline _ = False"

fun profile_input :: "pyobj \<Rightarrow> bool" where
  "profile_input (InputKeyboardButtonUserProfile _ _) = True"
| "profile_input _ = False"

section \<open>The loops on tagged items\<close>

lemma last_filter_holds: "filter P xs \<noteq> [] \<Longrightarrow> P (last (filter P xs))"
  using last_in_set [of "filter P xs"] by simp

lemma last_non_absent_Nil: "last_non_absent [] = None"
  by (simp add: last_non_absent_def)

lemma last_non_absent_Cons:
  "last_non_absent (h # hs) = (case last_non_absent hs of None \<Rightarrow> h | Some v \<Rightarrow> Some v)"
  using last_filter_holds [of "\<lambda>h. h \<noteq> None" hs]
  by (auto simp: last_non_absent_def split: option.splits)

lemma last_non_absent_None: "last_non_absent (None # hs) = last_non_absent hs"
  by (simp add: last_non_absent_def)

lemma last_non_absent_single: "last_non_absent [h] = h"
  by (cases h) (simp_all add: last_non_absent_def)

lemma last_non_absent_pair: "last_non_absent [a, h] = (if h \<noteq> None then h else a)"
  by (cases h) (simp_all add: last_non_absent_Cons last_non_absent_Nil)

lemma last_non_absent_append:
  "last_non_absent (xs @ ys) =
     (case last_non_absent ys of None \<Rightarrow> last_non_absent xs | Some v \<Rightarrow> Some v)"
  by (induction xs)
     (auto simp: last_non_absent_Nil last_non_absent_Cons split: option.splits)

lemma last_non_absent_join:
  "last_non_absent (last_non_absent xs # ys) = last_non_absent (xs @ ys)"
  by (simp add: last_non_absent_append last_non_absent_Cons)

lemma summary_Nil: "summary st [] = st"
  by (simp add: summary_def last_non_absent_single)

lemma summary_append: "summary st (bs @ cs) = summary (summary st bs) cs"
  using last_non_absent_join [of "resize st # map resize_of bs" "map resize_of cs"]
        last_non_absent_join [of "single_use st # map single_use_of bs" "map single_use_of cs"]
        last_non_absent_join [of "selective st # map selective_of bs" "map selective_of cs"]
  by (simp add: summary_def)

lemma summary_Cons: "summary st (b # bs) = summary (summary st [b]) bs"
  using summary_append [of st "[b]" bs] by simp

lemma summary_rows: "rows (summary st bs) = rows st"
  by (simp add: summary_def)

lemma summary_rows_update: "summary (st\<lparr>rows := rs\<rparr>) bs = (summary st bs)\<lparr>rows := rs\<rparr>"
  by (simp add: summary_def)

text \<open>One pass of the inner loop, whatever the item.\<close>

lemma visit_button_unwrap:
  "visit_button b (st, cur) =
     (case SUBCLASS_OF_ID (unwrap b) of
        Inl e \<Rightarrow> Inl e
      | Inr tag \<Rightarrow>
          Inr (st\<lparr>resize := (if resize_of b \<noteq> None then resize_of b else resize st),
                  single_use := (if single_use_of b \<noteq> None then single_use_of b else single_use st),
                  selective := (if selective_of b \<noteq> None then selective_of b else selective st),
                  is_inline := is_inline st \<or> inline_cat b,
                  is_normal := is_normal st \<or> \<not> inline_cat b\<rparr>,
               if tag = 0xbad74a3 then cur @ [unwrap b] else cur))"
  by (cases b) (auto simp add: visit_button_def inline_cat_def Let_def split: sum.splits)

lemma visit_button_tagged:
  assumes "tagged b"
  shows "visit_button b (st, cur) =
           Inr (summary st [b], cur @ map unwrap (filter is_button [b]))"
proof -
  from assms obtain tag where tag: "SUBCLASS_OF_ID (unwrap b) = Inr tag"
    by (auto simp: tagged_def split: sum.splits)
  show ?thesis
    by (simp add: visit_button_unwrap tag summary_def last_non_absent_pair is_button_def)
qed

lemma for_buttons_tagged:
  "list_all tagged bs \<Longrightarrow>
   for_buttons bs (st, cur) = Inr (summary st bs, cur @ map unwrap (filter is_button bs))"
proof (induction bs arbitrary: st cur)
  case Nil
  show ?case by (simp add: summary_Nil)
next
  case (Cons b bs)
  then have t: "tagged b" and ts: "list_all tagged bs" by simp_all
  show ?case
    using Cons.IH [OF ts] visit_button_tagged [OF t, of st cur] summary_Cons [of st b bs]
    by simp
qed

lemma rows_of_Cons: "rows_of (r # grid) = rows_of [r] @ rows_of grid"
  by (simp add: rows_of_def)

lemma visit_row_tagged:
  "list_all tagged bs \<Longrightarrow>
   visit_row (PyList bs) st = Inr ((summary st bs)\<lparr>rows := rows st @ rows_of [bs]\<rparr>)"
  by (simp add: visit_row_def for_buttons_tagged rows_of_def summary_rows)

lemma for_rows_tagged:
  "list_all (list_all tagged) grid \<Longrightarrow>
   for_rows (map PyList grid) st =
     Inr ((summary st (concat grid))\<lparr>rows := rows st @ rows_of grid\<rparr>)"
proof (induction grid arbitrary: st)
  case Nil
  show ?case by (simp add: summary_Nil rows_of_def)
next
  case (Cons r grid)
  then have t: "list_all tagged r" and ts: "list_all (list_all tagged) grid" by simp_all
  show ?case
    using Cons.IH [OF ts] visit_row_tagged [OF t, of st] rows_of_Cons [of r grid]
    by (simp add: summary_append summary_rows_update summary_rows)
qed

section \<open>The whole function on well-formed arguments\<close>

lemma finish_summary:
  "finish io ((summary builder_init bs)\<lparr>rows := R\<rparr>) =
     (if io \<and> list_ex (\<lambda>b. \<not> inline_cat b) bs then
        Inl (ValueError ''You cannot use non-inline buttons here'')
      else if list_ex inline_cat bs \<and> list_ex (\<lambda>b. \<not> inline_cat b) bs then
        Inl (ValueError ''You cannot mix inline with normal buttons'')
      else if list_ex inline_cat bs then Inr (ReplyInlineMarkup R)
      else Inr (ReplyKeyboardMarkup R (last_non_absent (map resize_of bs))
                  (last_non_absent (map single_use_of bs))
                  (last_non_absent (map selective_of bs))))"
  by (auto simp add: finish_def summary_def builder_init_def last_non_absent_None)

lemma build_reads_as:
  assumes "reads_as buttons grid"
  shows "build_reply_markup buttons io =
     (if io \<and> list_ex (\<lambda>b. \<not> inline_cat b) (concat grid) then
        Inl (ValueError ''You cannot use non-inline buttons here'')
      else if list_ex inline_cat (concat grid) \<and> list_ex (\<lambda>b. \<not> inline_cat b) (concat grid) then
        Inl (ValueError ''You cannot mix inline with normal buttons'')
      else if list_ex inline_cat (concat grid) then Inr (ReplyInlineMarkup (rows_of grid))
      else Inr (ReplyKeyboardMarkup (rows_of grid)
                  (last_non_absent (map resize_of (concat grid)))
                  (last_non_absent (map single_use_of (concat grid)))
                  (last_non_absent (map selective_of (concat grid)))))"
proof -
  from assms have t: "truthy buttons" and m: "SUBCLASS_OF_ID buttons \<noteq> Inr 0xe2e10ef2"
    and n: "normalize buttons = Inr (map PyList grid)" and g: "list_all (list_all tagged) grid"
    by (simp_all add: reads_as_def)
  have r: "rows builder_init = []" by (simp add: builder_init_def)
  have "build_reply_markup buttons io =
          finish io ((summary builder_init (concat grid))\<lparr>rows := rows_of grid\<rparr>)"
    using t m by (simp add: build_reply_markup_def n for_rows_tagged [OF g] r)
  then show ?thesis by (simp only: finish_summary)
qed

lemma tagged_not_list: "tagged b \<Longrightarrow> \<not> is_list_like b \<and> truthy b"
  by (cases b) (simp_all add: tagged_def)

lemma reads_as_single:
  "tagged b \<Longrightarrow> SUBCLASS_OF_ID b \<noteq> Inr 0xe2e10ef2 \<Longrightarrow> reads_as b [[b]]"
  by (cases b) (simp_all add: reads_as_def normalize_def tagged_def)

lemma reads_as_flat:
  assumes "bs \<noteq> []" and "list_all tagged bs"
  shows "reads_as (PyList bs) (map (\<lambda>b. [b]) bs)"
proof -
  from assms obtain b bs' where bs: "bs = b # bs'" by (cases bs) auto
  with assms have "\<not> is_list_like b" using tagged_not_list [of b] by simp
  then have "normalize (PyList bs) = Inr (map (\<lambda>b. PyList [b]) bs)"
    by (simp add: normalize_def bs)
  moreover have "list_all (list_all tagged) (map (\<lambda>b. [b]) bs)"
    using assms(2) by (simp add: list_all_iff)
  ultimately show ?thesis using assms(1) by (simp add: reads_as_def comp_def)
qed

lemma reads_as_grid:
  assumes "grid \<noteq> []" and "list_all (list_all tagged) grid"
  shows "reads_as (PyList (map PyList grid)) grid"
proof -
  from assms obtain r rs where g: "grid = r # rs" by (cases grid) auto
  show ?thesis using assms(2) by (simp add: reads_as_def normalize_def g)
qed

section \<open>The payload of an inline button\<close>

text \<open>
  Claim C1, as stated, asks that every byte string of at most 64 octets given as \<open>data\<close>
  is kept as the payload. The empty byte string is not: \<open>Button.inline\<close> treats it like
  an omitted \<open>data\<close> and takes the encoded \<open>text\<close> instead.
\<close>

theorem inline_empty_data_counterexample:
  "length ([] :: pybytes) \<le> 64 \<and>
   Button_inline (str ''A'') (BytesData []) = Inr (KeyboardButtonCallback (str ''A'') [0x41]) \<and>
   KeyboardButtonCallback (str ''A'') [0x41] \<noteq> KeyboardButtonCallback (str ''A'') []"
  by (simp add: Button_inline_def str_def utf8_char_def)

text \<open>
  Claim C1, amended: a byte string \<open>d\<close> of more than 64 octets makes \<open>Button.inline\<close>
  raise \<open>ValueError\<close> (the validation error of the module), and a byte string that is
  not empty and has at most 64 octets gives a callback button whose payload is \<open>d\<close>
  itself.
\<close>

theorem inline_data_limit:
  "(length d > 64 \<longrightarrow>
      Button_inline text (BytesData d) = Inl (ValueError ''Too many bytes for the data'')) \<and>
   (d \<noteq> [] \<and> length d \<le> 64 \<longrightarrow>
      Button_inline text (BytesData d) = Inr (KeyboardButtonCallback text d))"
  by (auto simp add: Button_inline_def)

theorem inline_data_limit_witness:
  "length (replicate 65 (0 :: 8 word)) > 64 \<and>
   Button_inline (str ''A'') (BytesData (replicate 65 0)) =
     Inl (ValueError ''Too many bytes for the data'') \<and>
   [1, 2 :: 8 word] \<noteq> [] \<and> length [1, 2 :: 8 word] \<le> 64 \<and>
   Button_inline (str ''A'') (BytesData [1, 2]) = Inr (KeyboardButtonCallback (str ''A'') [1, 2])"
  using inline_data_limit [of "replicate 65 0" "str ''A''"]
        inline_data_limit [of "[1, 2]" "str ''A''"]
  by simp

section \<open>Markup that is already built\<close>

lemma markup_tag_truthy: "SUBCLASS_OF_ID m = Inr t \<Longrightarrow> truthy m"
  by (cases m) simp_all

lemma finish_result:
  "finish io st = Inr m \<Longrightarrow> SUBCLASS_OF_ID m = Inr 0xe2e10ef2"
  by (auto simp add: finish_def split: if_splits)

lemma build_result:
  "build_reply_markup x io = Inr m \<Longrightarrow> m = PyNone \<or> SUBCLASS_OF_ID m = Inr 0xe2e10ef2"
  by (auto simp add: build_reply_markup_def split: if_splits sum.splits dest: finish_result)

text \<open>
  Claim C3: an object that carries the tag of \<open>ReplyMarkup\<close> is returned by
  \<open>build_reply_markup\<close> as it is, and so the function is idempotent: whenever it returns
  a markup, building that markup again, with either value of \<open>inline_only\<close>, returns the
  same markup.
\<close>

theorem build_pass_through:
  "(SUBCLASS_OF_ID m = Inr 0xe2e10ef2 \<longrightarrow> build_reply_markup m io = Inr m) \<and>
   (build_reply_markup x io = Inr m \<and> m \<noteq> PyNone \<longrightarrow> build_reply_markup m io' = Inr m)"
proof -
  have a: "build_reply_markup k j = Inr k" if "SUBCLASS_OF_ID k = Inr 0xe2e10ef2" for k j
    using that markup_tag_truthy [OF that] by (simp add: build_reply_markup_def)
  show ?thesis using a build_result [of x io m] by blast
qed

theorem build_pass_through_witness:
  "SUBCLASS_OF_ID (ReplyKeyboardHide None) = Inr 0xe2e10ef2 \<and>
   build_reply_markup (ReplyKeyboardHide None) False = Inr (ReplyKeyboardHide None) \<and>
   build_reply_markup (KeyboardButton (str ''A'')) False =
     Inr (ReplyKeyboardMarkup [KeyboardButtonRow [KeyboardButton (str ''A'')]] None None None) \<and>
   build_reply_markup
     (ReplyKeyboardMarkup [KeyboardButtonRow [KeyboardButton (str ''A'')]] None None None) True =
     Inr (ReplyKeyboardMarkup [KeyboardButtonRow [KeyboardButton (str ''A'')]] None None None)"
proof -
  have b: "build_reply_markup (KeyboardButton (str ''A'')) False =
     Inr (ReplyKeyboardMarkup [KeyboardButtonRow [KeyboardButton (str ''A'')]] None None None)"
    by (simp add: build_reply_markup_def normalize_def visit_row_def visit_button_def
          finish_def builder_init_def)
  show ?thesis
    using build_pass_through [of "ReplyKeyboardHide None" False "KeyboardButton (str ''A'')"]
          build_pass_through [of "ReplyKeyboardMarkup [KeyboardButtonRow [KeyboardButton (str ''A'')]] None None None" False
             "KeyboardButton (str ''A'')" True] b
    by simp
qed

text \<open>
  Claim C9: the objects made by \<open>Button.clear\<close> and \<open>Button.force_reply\<close> carry the tag
  of \<open>ReplyMarkup\<close>, so \<open>build_reply_markup\<close> returns them unchanged, whatever
  \<open>inline_only\<close> is: no shaping, no classification, no check of the categories.
\<close>

theorem directives_pass_through:
  "SUBCLASS_OF_ID (Button_clear sel) = Inr 0xe2e10ef2 \<and>
   SUBCLASS_OF_ID (Button_force_reply su sel' ph) = Inr 0xe2e10ef2 \<and>
   build_reply_markup (Button_clear sel) io = Inr (Button_clear sel) \<and>
   build_reply_markup (Button_force_reply su sel' ph) io = Inr (Button_force_reply su sel' ph)"
  by (simp add: Button_clear_def Button_force_reply_def build_reply_markup_def)

section \<open>The shape of the argument\<close>

text \<open>
  Claim C10: for a list argument only the first item decides the shape. When it is
  list-like, the items are the rows, as they are; when it is not, every item becomes a
  row of its own. So a later item that is no list is iterated as a row all the same
  (\<open>TypeError\<close>), and a later list among single buttons is taken for a button
  (\<open>AttributeError\<close>).
\<close>

theorem first_item_decides:
  "(is_list_like x \<longrightarrow>
      build_reply_markup (PyList (x # xs)) io =
        (case for_rows (x # xs) builder_init of Inl e \<Rightarrow> Inl e | Inr st \<Rightarrow> finish io st)) \<and>
   (\<not> is_list_like x \<longrightarrow>
      build_reply_markup (PyList (x # xs)) io =
        (case for_rows (map (\<lambda>b. PyList [b]) (x # xs)) builder_init of
           Inl e \<Rightarrow> Inl e | Inr st \<Rightarrow> finish io st)) \<and>
   build_reply_markup
     (PyList [PyList [KeyboardButton (str ''A'')], KeyboardButton (str ''B'')]) io = Inl TypeError \<and>
   build_reply_markup
     (PyList [KeyboardButton (str ''A''), PyList [KeyboardButton (str ''B'')]]) io =
       Inl AttributeError"
  by (simp add: build_reply_markup_def normalize_def visit_row_def visit_button_def
        builder_init_def)

theorem first_item_decides_witness:
  "is_list_like (PyList []) \<and> \<not> is_list_like PyNone \<and>
   build_reply_markup (PyList [PyList [], PyNone]) False = Inl TypeError \<and>
   build_reply_markup (PyList [PyNone, PyList []]) False = Inl AttributeError"
  using first_item_decides [of "PyList []" "[PyNone]" False]
        first_item_decides [of PyNone "[PyList []]" False]
  by (simp add: visit_row_def visit_button_def builder_init_def)

section \<open>The checks of the categories\<close>

lemma concat_singletons: "concat (map (\<lambda>b. [b]) bs) = bs"
  by (induction bs) simp_all

lemma build_flat:
  assumes "bs \<noteq> []" and "list_all tagged bs"
  shows "build_reply_markup (PyList bs) io =
     (if io \<and> list_ex (\<lambda>b. \<not> inline_cat b) bs then
        Inl (ValueError ''You cannot use non-inline buttons here'')
      else if list_ex inline_cat bs \<and> list_ex (\<lambda>b. \<not> inline_cat b) bs then
        Inl (ValueError ''You cannot mix inline with normal buttons'')
      else if list_ex inline_cat bs then Inr (ReplyInlineMarkup (rows_of (map (\<lambda>b. [b]) bs)))
      else Inr (ReplyKeyboardMarkup (rows_of (map (\<lambda>b. [b]) bs))
                  (last_non_absent (map resize_of bs))
                  (last_non_absent (map single_use_of bs))
                  (last_non_absent (map selective_of bs))))"
  using build_reads_as [OF reads_as_flat [OF assms], of io]
  by (simp only: concat_singletons)

text \<open>
  The check against mixing, with the categories as \<open>Button._is_inline\<close> computes them:
  a collection of tagged items, given flat or as rows, that holds an item the function
  takes for inline and one it does not, in whatever order, makes \<open>build_reply_markup\<close>
  with \<open>inline_only = False\<close> raise the \<open>ValueError\<close> about mixing.
\<close>

lemma mixing_detected:
  "(list_all tagged bs \<and> list_ex inline_cat bs \<and> list_ex (\<lambda>b. \<not> inline_cat b) bs \<longrightarrow>
      build_reply_markup (PyList bs) False =
        Inl (ValueError ''You cannot mix inline with normal buttons'')) \<and>
   (list_all (list_all tagged) grid \<and> list_ex inline_cat (concat grid) \<and>
    list_ex (\<lambda>b. \<not> inline_cat b) (concat grid) \<longrightarrow>
      build_reply_markup (PyList (map PyList grid)) False =
        Inl (ValueError ''You cannot mix inline with normal buttons''))"
proof (intro conjI impI)
  assume a: "list_all tagged bs \<and> list_ex inline_cat bs \<and> list_ex (\<lambda>b. \<not> inline_cat b) bs"
  then have "bs \<noteq> []" by auto
  then show "build_reply_markup (PyList bs) False =
        Inl (ValueError ''You cannot mix inline with normal buttons'')"
    using a by (simp add: build_flat)
next
  assume a: "list_all (list_all tagged) grid \<and> list_ex inline_cat (concat grid) \<and>
    list_ex (\<lambda>b. \<not> inline_cat b) (concat grid)"
  then have "grid \<noteq> []" by auto
  then have "reads_as (PyList (map PyList grid)) grid" using a by (simp add: reads_as_grid)
  then show "build_reply_markup (PyList (map PyList grid)) False =
        Inl (ValueError ''You cannot mix inline with normal buttons'')"
    using a build_reads_as [of "PyList (map PyList grid)" grid False] by simp
qed

text \<open>
  Claim C2 asks the error for every collection with an inline and a keyboard button. The
  code misses it for the button of \<open>Button.mention\<close>, an inline button by its docstring:
  \<open>Button._is_inline\<close> does not list its class, so next to a text button, in either
  order, no error is raised and a keyboard markup holding both buttons is returned.
\<close>

theorem mention_mixed_with_text:
  "Button_mention (\<lambda>u. Inr u) (str ''Me'') PyNone =
     Inr (InputKeyboardButtonUserProfile (str ''Me'') InputUserSelf) \<and>
   documented_inline (InputKeyboardButtonUserProfile (str ''Me'') InputUserSelf) \<and>
   build_reply_markup
     (PyList [InputKeyboardButtonUserProfile (str ''Me'') InputUserSelf,
              Button_text (str ''A'') None None None]) False =
     Inr (ReplyKeyboardMarkup
            [KeyboardButtonRow [InputKeyboardButtonUserProfile (str ''Me'') InputUserSelf],
             KeyboardButtonRow [KeyboardButton (str ''A'')]] None None None) \<and>
   build_reply_markup
     (PyList [Button_text (str ''A'') None None None,
              InputKeyboardButtonUserProfile (str ''Me'') InputUserSelf]) False =
     Inr (ReplyKeyboardMarkup
            [KeyboardButtonRow [KeyboardButton (str ''A'')],
             KeyboardButtonRow [InputKeyboardButtonUserProfile (str ''Me'') InputUserSelf]]
            None None None)"
  by (simp add: Button_mention_def build_reply_markup_def Button_text_def normalize_def
        visit_row_def visit_button_def finish_def builder_init_def del: not_None_eq)

lemma is_inline_documented: "\<not> profile_input x \<Longrightarrow> Button_is_inline x = documented_inline x"
  by (cases x) simp_all

text \<open>
  Claim C4, as stated, asks with \<open>inline_only = True\<close> an error whenever a keyboard
  button appears anywhere in the argument, and an inline markup whenever every button is
  inline. A keyboard markup that is already built is returned unchecked, keyboard button
  and all; and an inline button next to the directive of \<open>Button.clear\<close>, which is no
  button and is dropped from the rows, raises the error.
\<close>

theorem inline_only_unchecked_counterexample:
  "build_reply_markup
     (ReplyKeyboardMarkup [KeyboardButtonRow [KeyboardButton (str ''A'')]] None None None) True =
     Inr (ReplyKeyboardMarkup [KeyboardButtonRow [KeyboardButton (str ''A'')]] None None None) \<and>
   filter is_button [Button_url (str ''Open'') None, Button_clear None] =
     [Button_url (str ''Open'') None] \<and>
   documented_inline (Button_url (str ''Open'') None) \<and>
   build_reply_markup (PyList [Button_url (str ''Open'') None, Button_clear None]) True =
     Inl (ValueError ''You cannot use non-inline buttons here'')"
  by (simp add: build_reply_markup_def Button_url_def Button_clear_def is_button_def
        normalize_def visit_row_def visit_button_def finish_def builder_init_def)

text \<open>
  Claim C4, amended: with \<open>inline_only = True\<close> and an argument that is not a markup
  already built, whose rows hold tagged items, none of them the button of
  \<open>Button.mention\<close>: if some item is not an inline button (a keyboard button, or an
  object that is no button) the \<open>ValueError\<close> about non-inline buttons is raised, and if
  every item, at least one, is an inline button the inline markup of the rows is
  returned. A single URL button is accepted, a single text button refused.
\<close>

theorem inline_only_documented:
  "(reads_as buttons grid \<and> list_all (\<lambda>b. \<not> profile_input (unwrap b)) (concat grid) \<and>
    list_ex (\<lambda>b. \<not> documented_inline (unwrap b)) (concat grid) \<longrightarrow>
      build_reply_markup buttons True =
        Inl (ValueError ''You cannot use non-inline buttons here'')) \<and>
   (reads_as buttons grid \<and> concat grid \<noteq> [] \<and>
    list_all (\<lambda>b. \<not> profile_input (unwrap b)) (concat grid) \<and>
    list_all (\<lambda>b. documented_inline (unwrap b)) (concat grid) \<longrightarrow>
      build_reply_markup buttons True = Inr (ReplyInlineMarkup (rows_of grid))) \<and>
   build_reply_markup (Button_url (str ''Open'') (Some (str ''http://x''))) True =
     Inr (ReplyInlineMarkup
            [KeyboardButtonRow [KeyboardButtonUrl (str ''Open'') (str ''http://x'')]]) \<and>
   build_reply_markup (Button_text (str ''A'') None None None) True =
     Inl (ValueError ''You cannot use non-inline buttons here'')"
proof (intro conjI impI)
  assume a: "reads_as buttons grid \<and> list_all (\<lambda>b. \<not> profile_input (unwrap b)) (concat grid) \<and>
    list_ex (\<lambda>b. \<not> documented_inline (unwrap b)) (concat grid)"
  then have "list_ex (\<lambda>b. \<not> inline_cat b) (concat grid)"
    using is_inline_documented by (auto simp add: list_ex_iff list_all_iff inline_cat_def)
  with a show "build_reply_markup buttons True =
        Inl (ValueError ''You cannot use non-inline buttons here'')"
    using build_reads_as [of buttons grid True] by simp
next
  assume a: "reads_as buttons grid \<and> concat grid \<noteq> [] \<and>
    list_all (\<lambda>b. \<not> profile_input (unwrap b)) (concat grid) \<and>
    list_all (\<lambda>b. documented_inline (unwrap b)) (concat grid)"
  then have i: "list_all inline_cat (concat grid)"
    using is_inline_documented by (auto simp add: list_all_iff inline_cat_def)
  then have n: "\<not> list_ex (\<lambda>b. \<not> inline_cat b) (concat grid)"
    by (simp add: list_ex_iff list_all_iff)
  from a i have e: "list_ex inline_cat (concat grid)"
    by (cases "concat grid") (simp_all del: concat_eq_Nil_conv)
  from a n e show "build_reply_markup buttons True = Inr (ReplyInlineMarkup (rows_of grid))"
    using build_reads_as [of buttons grid True] by simp
next
  show "build_reply_markup (Button_url (str ''Open'') (Some (str ''http://x''))) True =
     Inr (ReplyInlineMarkup
            [KeyboardButtonRow [KeyboardButtonUrl (str ''Open'') (str ''http://x'')]])"
    by (simp add: str_def build_reply_markup_def Button_url_def normalize_def visit_row_def
          visit_button_def finish_def builder_init_def)
next
  show "build_reply_markup (Button_text (str ''A'') None None None) True =
     Inl (ValueError ''You cannot use non-inline buttons here'')"
    by (simp add: build_reply_markup_def Button_text_def normalize_def visit_row_def
          visit_button_def finish_def builder_init_def)
qed

theorem inline_only_documented_witness:
  "reads_as (PyList [Button_buy (str ''Pay''), Button_text (str ''A'') None None None])
     [[Button_buy (str ''Pay'')], [Button_text (str ''A'') None None None]] \<and>
   build_reply_markup (PyList [Button_buy (str ''Pay''), Button_text (str ''A'') None None None])
     True = Inl (ValueError ''You cannot use non-inline buttons here'') \<and>
   reads_as (PyList [PyList [Button_buy (str ''Pay''), Button_game (str ''Play'')]])
     [[Button_buy (str ''Pay''), Button_game (str ''Play'')]] \<and>
   build_reply_markup (PyList [PyList [Button_buy (str ''Pay''), Button_game (str ''Play'')]])
     True =
     Inr (ReplyInlineMarkup
            [KeyboardButtonRow [KeyboardButtonBuy (str ''Pay''), KeyboardButtonGame (str ''Play'')]])"
  using inline_only_documented [of "PyList [Button_buy (str ''Pay''), Button_text (str ''A'') None None None]"
          "[[Button_buy (str ''Pay'')], [Button_text (str ''A'') None None None]]"]
        inline_only_documented [of "PyList [PyList [Button_buy (str ''Pay''), Button_game (str ''Play'')]]"
          "[[Button_buy (str ''Pay''), Button_game (str ''Play'')]]"]
  by (simp add: reads_as_def normalize_def tagged_def is_button_def rows_of_def
        Button_text_def Button_buy_def Button_game_def)

section \<open>The hints of the keyboard\<close>

lemma last_non_absent_snoc:
  "last_non_absent (hs @ [h]) = (if h \<noteq> None then h else last_non_absent hs)"
  by (cases h) (simp_all add: last_non_absent_append last_non_absent_single)

text \<open>
  Claim C5: the hints \<open>resize\<close>, \<open>single_use\<close> and \<open>selective\<close> of the descriptors are
  merged in the order of the rows and, within a row, from left to right, and the last
  value that is not absent wins: an argument of tagged items without an inline one gives
  the keyboard markup with, for each hint, the last non-absent value of the items; any
  keyboard markup that is built carries these values; a descriptor with \<open>resize\<close> unset
  after others leaves the value as it was, one with \<open>resize\<close> set replaces it; and
  \<open>resize = True\<close> followed by \<open>resize\<close> unset yields \<open>resize = True\<close>.
\<close>

theorem hints_last_write_wins:
  "(reads_as buttons grid \<and> \<not> list_ex inline_cat (concat grid) \<longrightarrow>
      build_reply_markup buttons False =
        Inr (ReplyKeyboardMarkup (rows_of grid)
               (last_non_absent (map resize_of (concat grid)))
               (last_non_absent (map single_use_of (concat grid)))
               (last_non_absent (map selective_of (concat grid))))) \<and>
   (reads_as buttons grid \<and> build_reply_markup buttons io = Inr (ReplyKeyboardMarkup rs r s t) \<longrightarrow>
      r = last_non_absent (map resize_of (concat grid)) \<and>
      s = last_non_absent (map single_use_of (concat grid)) \<and>
      t = last_non_absent (map selective_of (concat grid))) \<and>
   last_non_absent (map resize_of (bs @ [Button b None su sel])) =
     last_non_absent (map resize_of bs) \<and>
   last_non_absent (map resize_of (bs @ [Button b (Some v) su sel])) = Some v \<and>
   build_reply_markup
     (PyList [Button_text (str ''A'') (Some True) None None,
              Button_text (str ''B'') None None None]) False =
     Inr (ReplyKeyboardMarkup
            [KeyboardButtonRow [KeyboardButton (str ''A'')],
             KeyboardButtonRow [KeyboardButton (str ''B'')]] (Some True) None None)"
proof (intro conjI impI)
  assume "reads_as buttons grid \<and> \<not> list_ex inline_cat (concat grid)"
  then show "build_reply_markup buttons False =
        Inr (ReplyKeyboardMarkup (rows_of grid)
               (last_non_absent (map resize_of (concat grid)))
               (last_non_absent (map single_use_of (concat grid)))
               (last_non_absent (map selective_of (concat grid))))"
    using build_reads_as [of buttons grid False] by simp
next
  assume a: "reads_as buttons grid \<and> build_reply_markup buttons io = Inr (ReplyKeyboardMarkup rs r s t)"
  then have e: "build_reply_markup buttons io = Inr (ReplyKeyboardMarkup rs r s t)" by simp
  from a have k: "r = last_non_absent (map resize_of (concat grid)) \<and>
      s = last_non_absent (map single_use_of (concat grid)) \<and>
      t = last_non_absent (map selective_of (concat grid))"
    using build_reads_as [of buttons grid io] unfolding e by (simp split: if_splits)
  from k show "r = last_non_absent (map resize_of (concat grid))" by simp
  from k show "s = last_non_absent (map single_use_of (concat grid))" by simp
  from k show "t = last_non_absent (map selective_of (concat grid))" by simp
next
  show "last_non_absent (map resize_of (bs @ [Button b None su sel])) =
     last_non_absent (map resize_of bs)"
    by (simp add: last_non_absent_snoc)
next
  show "last_non_absent (map resize_of (bs @ [Button b (Some v) su sel])) = Some v"
    by (simp add: last_non_absent_snoc)
next
  show "build_reply_markup
     (PyList [Button_text (str ''A'') (Some True) None None,
              Button_text (str ''B'') None None None]) False =
     Inr (ReplyKeyboardMarkup
            [KeyboardButtonRow [KeyboardButton (str ''A'')],
             KeyboardButtonRow [KeyboardButton (str ''B'')]] (Some True) None None)"
    by (simp add: build_reply_markup_def Button_text_def normalize_def visit_row_def
          visit_button_def finish_def builder_init_def del: not_None_eq)
qed

theorem hints_last_write_wins_witness:
  "reads_as (PyList [Button_text (str ''A'') (Some True) (Some False) None,
                     Button_text (str ''B'') None (Some True) None])
     [[Button_text (str ''A'') (Some True) (Some False) None],
      [Button_text (str ''B'') None (Some True) None]] \<and>
   build_reply_markup (PyList [Button_text (str ''A'') (Some True) (Some False) None,
                     Button_text (str ''B'') None (Some True) None]) False =
     Inr (ReplyKeyboardMarkup
            [KeyboardButtonRow [KeyboardButton (str ''A'')],
             KeyboardButtonRow [KeyboardButton (str ''B'')]] (Some True) (Some True) None)"
  using hints_last_write_wins [of "PyList [Button_text (str ''A'') (Some True) (Some False) None,
                     Button_text (str ''B'') None (Some True) None]"
     "[[Button_text (str ''A'') (Some True) (Some False) None],
      [Button_text (str ''B'') None (Some True) None]]" False
      "[KeyboardButtonRow [KeyboardButton (str ''A'')],
             KeyboardButtonRow [KeyboardButton (str ''B'')]]" "Some True" "Some True" None]
  by (simp add: reads_as_def normalize_def tagged_def inline_cat_def is_button_def rows_of_def
        Button_text_def last_non_absent_def del: not_None_eq)

section \<open>Arguments without a button\<close>

lemma inline_is_button: "inline_cat b \<Longrightarrow> is_button b"
  unfolding inline_cat_def is_button_def by (cases "unwrap b") simp_all

lemma rows_of_no_button: "\<not> list_ex is_button (concat grid) \<Longrightarrow> rows_of grid = []"
  by (auto simp add: rows_of_def list_ex_iff filter_empty_conv)

text \<open>
  Claim C6, as stated, asks that a non-empty collection of which no button survives the
  filter never makes \<open>build_reply_markup\<close> raise. With \<open>inline_only = True\<close> it does: an
  item that is dropped, here the directive of \<open>Button.clear\<close>, has been counted as a
  button that is not inline before the filter drops it.
\<close>

theorem no_button_inline_only_counterexample:
  "reads_as (PyList [Button_clear None]) [[Button_clear None]] \<and>
   rows_of [[Button_clear None]] = [] \<and>
   build_reply_markup (PyList [Button_clear None]) True =
     Inl (ValueError ''You cannot use non-inline buttons here'')"
  by (simp add: reads_as_def normalize_def tagged_def is_button_def rows_of_def Button_clear_def
        build_reply_markup_def visit_row_def visit_button_def finish_def builder_init_def)

text \<open>
  Claim C6, amended: an argument of tagged items none of which is a button gives, with
  \<open>inline_only = False\<close>, and also with \<open>inline_only = True\<close> when its rows hold no item
  at all, a keyboard markup without rows (with the hints of the descriptors met); the
  function neither raises nor returns \<open>None\<close>.
\<close>

theorem no_button_empty_keyboard:
  "reads_as buttons grid \<and> \<not> list_ex is_button (concat grid) \<and>
   (io = False \<or> concat grid = []) \<longrightarrow>
     build_reply_markup buttons io =
       Inr (ReplyKeyboardMarkup []
              (last_non_absent (map resize_of (concat grid)))
              (last_non_absent (map single_use_of (concat grid)))
              (last_non_absent (map selective_of (concat grid))))"
proof
  assume a: "reads_as buttons grid \<and> \<not> list_ex is_button (concat grid) \<and>
   (io = False \<or> concat grid = [])"
  then have n: "\<not> list_ex inline_cat (concat grid)"
    using inline_is_button by (auto simp add: list_ex_iff)
  from a have r: "rows_of grid = []" by (simp add: rows_of_no_button)
  from a have c: "\<not> (io \<and> list_ex (\<lambda>b. \<not> inline_cat b) (concat grid))"
    by (auto simp add: list_ex_iff)
  from a show "build_reply_markup buttons io =
       Inr (ReplyKeyboardMarkup []
              (last_non_absent (map resize_of (concat grid)))
              (last_non_absent (map single_use_of (concat grid)))
              (last_non_absent (map selective_of (concat grid))))"
    using build_reads_as [of buttons grid io] n r c by simp
qed

theorem no_button_empty_keyboard_witness:
  "reads_as (PyList [Button_clear None]) [[Button_clear None]] \<and>
   \<not> list_ex is_button (concat [[Button_clear None]]) \<and>
   build_reply_markup (PyList [Button_clear None]) False =
     Inr (ReplyKeyboardMarkup [] None None None) \<and>
   reads_as (PyList [PyList []]) [[]] \<and>
   build_reply_markup (PyList [PyList []]) True = Inr (ReplyKeyboardMarkup [] None None None)"
  using no_button_empty_keyboard [of "PyList [Button_clear None]" "[[Button_clear None]]" False]
        no_button_empty_keyboard [of "PyList [PyList []]" "[[]]" True]
  by (simp add: reads_as_def normalize_def tagged_def is_button_def Button_clear_def
        last_non_absent_def del: not_None_eq)

section \<open>One category in a markup\<close>

text \<open>The loops keep the invariant of the builder, whatever the items are.\<close>

lemma visit_button_invariant:
  assumes "visit_button b (st, cur) = Inr (st', cur')" and "builder_invariant st cur"
  shows "builder_invariant st' cur'"
  using assms
  by (auto simp add: visit_button_unwrap builder_invariant_def inline_cat_def
        split: sum.splits if_splits)

lemma for_buttons_invariant:
  "for_buttons bs (st, cur) = Inr (st', cur') \<Longrightarrow> builder_invariant st cur \<Longrightarrow>
   builder_invariant st' cur'"
proof (induction bs arbitrary: st cur)
  case Nil
  then show ?case by simp
next
  case (Cons b bs)
  from Cons.prems(1) obtain st1 cur1 where
    v: "visit_button b (st, cur) = Inr (st1, cur1)" and
    f: "for_buttons bs (st1, cur1) = Inr (st', cur')"
    by (auto split: sum.splits)
  from visit_button_invariant [OF v Cons.prems(2)] have "builder_invariant st1 cur1" .
  then show ?case using Cons.IH [OF f] by simp
qed

lemma visit_row_invariant:
  assumes "visit_row r st = Inr st'" and "builder_invariant st []"
  shows "builder_invariant st' []"
proof -
  from assms(1) obtain bs st1 cur1 where
    f: "for_buttons bs (st, []) = Inr (st1, cur1)" and
    s: "st' = (if cur1 \<noteq> [] then st1\<lparr>rows := rows st1 @ [KeyboardButtonRow cur1]\<rparr> else st1)"
    by (auto simp add: visit_row_def split: sum.splits)
  from for_buttons_invariant [OF f assms(2)] have "builder_invariant st1 cur1" .
  then show ?thesis
    by (auto simp add: s builder_invariant_def row_cat_def)
qed

lemma for_rows_invariant:
  "for_rows rs st = Inr st' \<Longrightarrow> builder_invariant st [] \<Longrightarrow> builder_invariant st' []"
proof (induction rs arbitrary: st)
  case Nil
  then show ?case by simp
next
  case (Cons r rs)
  from Cons.prems(1) obtain st1 where
    v: "visit_row r st = Inr st1" and f: "for_rows rs st1 = Inr st'"
    by (auto split: sum.splits)
  from visit_row_invariant [OF v Cons.prems(2)] show ?case using Cons.IH [OF f] by simp
qed

lemma finish_invariant:
  "finish io st = Inr m \<Longrightarrow> builder_invariant st [] \<Longrightarrow> category_invariant m"
  by (auto simp add: finish_def builder_invariant_def category_invariant_def split: if_splits)

text \<open>
  With the categories as \<open>Button._is_inline\<close> computes them, every markup that
  \<open>build_reply_markup\<close> assembles, that is returns for an argument that is not itself a
  markup passed through, satisfies the category invariant.
\<close>

lemma assembled_markup_invariant:
  "SUBCLASS_OF_ID buttons \<noteq> Inr 0xe2e10ef2 \<and> build_reply_markup buttons io = Inr m \<longrightarrow>
     category_invariant m"
proof
  assume a: "SUBCLASS_OF_ID buttons \<noteq> Inr 0xe2e10ef2 \<and> build_reply_markup buttons io = Inr m"
  have i: "builder_invariant builder_init []"
    by (simp add: builder_invariant_def builder_init_def)
  show "category_invariant m"
  proof (cases "truthy buttons")
    case False
    with a have "m = PyNone" by (simp add: build_reply_markup_def)
    then show ?thesis by (simp add: category_invariant_def)
  next
    case True
    with a obtain grid st where "for_rows grid builder_init = Inr st" and "finish io st = Inr m"
      by (auto simp add: build_reply_markup_def split: sum.splits)
    then show ?thesis using for_rows_invariant [OF _ i] finish_invariant by blast
  qed
qed

text \<open>
  Claim C8 asks that a keyboard markup never holds a button of the inline category. The
  code breaks it for the button of \<open>Button.mention\<close>, an inline button by its docstring:
  \<open>Button._is_inline\<close> does not list its class, so the button is assembled into a
  keyboard markup.
\<close>

theorem mention_built_as_keyboard:
  "Button_mention (\<lambda>u. Inr u) (str ''Me'') PyNone =
     Inr (InputKeyboardButtonUserProfile (str ''Me'') InputUserSelf) \<and>
   documented_inline (InputKeyboardButtonUserProfile (str ''Me'') InputUserSelf) \<and>
   \<not> Button_is_inline (InputKeyboardButtonUserProfile (str ''Me'') InputUserSelf) \<and>
   build_reply_markup (InputKeyboardButtonUserProfile (str ''Me'') InputUserSelf) False =
     Inr (ReplyKeyboardMarkup
            [KeyboardButtonRow [InputKeyboardButtonUserProfile (str ''Me'') InputUserSelf]]
            None None None)"
  by (simp add: Button_mention_def build_reply_markup_def normalize_def visit_row_def
        visit_button_def finish_def builder_init_def)

section \<open>From the argument to the rows\<close>

lemma rows_of_buttons:
  "list_all (list_all is_button) grid \<Longrightarrow>
   rows_of grid = map (\<lambda>r. KeyboardButtonRow (map unwrap r)) (filter (\<lambda>r. r \<noteq> []) grid)"
  by (induction grid) (auto simp add: rows_of_def filter_id_conv list_all_iff)

lemma build_single:
  "truthy b \<Longrightarrow> \<not> is_list_like b \<Longrightarrow> SUBCLASS_OF_ID b \<noteq> Inr 0xe2e10ef2 \<Longrightarrow>
   build_reply_markup b io = build_reply_markup (PyList [PyList [b]]) io"
  by (cases b) (simp_all add: build_reply_markup_def normalize_def)

lemma build_wrap:
  "\<not> is_list_like x \<Longrightarrow>
   build_reply_markup (PyList (x # xs)) io =
     build_reply_markup (PyList (map (\<lambda>b. PyList [b]) (x # xs))) io"
  by (simp add: build_reply_markup_def normalize_def)

text \<open>
  Claim C7: \<open>build_reply_markup\<close> brings its argument into shape as follows. A single
  descriptor or button is built like the grid of one row with it alone; a flat list like
  the list in which every item is a row of its own; a list of rows of tagged items gives
  the markup, of the keyboard or of the inline kind, whose rows are the rows given, each
  with its buttons unwrapped and in order, the rows without a button left out. Two rows
  with the text buttons A and B, C give a keyboard markup of two rows, A in the first and
  B, C in the second.
\<close>

theorem shapes_and_rows:
  "(truthy b \<and> \<not> is_list_like b \<and> SUBCLASS_OF_ID b \<noteq> Inr 0xe2e10ef2 \<longrightarrow>
      build_reply_markup b io = build_reply_markup (PyList [PyList [b]]) io) \<and>
   (\<not> is_list_like x \<longrightarrow>
      build_reply_markup (PyList (x # xs)) io =
        build_reply_markup (PyList (map (\<lambda>b. PyList [b]) (x # xs))) io) \<and>
   (grid \<noteq> [] \<and> list_all (list_all tagged) grid \<and> \<not> list_ex inline_cat (concat grid) \<longrightarrow>
      build_reply_markup (PyList (map PyList grid)) False =
        Inr (ReplyKeyboardMarkup (rows_of grid)
               (last_non_absent (map resize_of (concat grid)))
               (last_non_absent (map single_use_of (concat grid)))
               (last_non_absent (map selective_of (concat grid))))) \<and>
   (concat grid \<noteq> [] \<and> list_all (list_all tagged) grid \<and> list_all inline_cat (concat grid) \<longrightarrow>
      build_reply_markup (PyList (map PyList grid)) io = Inr (ReplyInlineMarkup (rows_of grid))) \<and>
   (list_all (list_all is_button) grid \<longrightarrow>
      rows_of grid =
        map (\<lambda>r. KeyboardButtonRow (map unwrap r)) (filter (\<lambda>r. r \<noteq> []) grid)) \<and>
   build_reply_markup
     (PyList [PyList [Button_text (str ''A'') None None None],
              PyList [Button_text (str ''B'') None None None,
                      Button_text (str ''C'') None None None]]) False =
     Inr (ReplyKeyboardMarkup
            [KeyboardButtonRow [KeyboardButton (str ''A'')],
             KeyboardButtonRow [KeyboardButton (str ''B''), KeyboardButton (str ''C'')]]
            None None None)"
proof (intro conjI impI)
  assume "truthy b \<and> \<not> is_list_like b \<and> SUBCLASS_OF_ID b \<noteq> Inr 0xe2e10ef2"
  then show "build_reply_markup b io = build_reply_markup (PyList [PyList [b]]) io"
    by (simp add: build_single)
next
  assume "\<not> is_list_like x"
  then show "build_reply_markup (PyList (x # xs)) io =
        build_reply_markup (PyList (map (\<lambda>b. PyList [b]) (x # xs))) io"
    by (rule build_wrap)
next
  assume a: "grid \<noteq> [] \<and> list_all (list_all tagged) grid \<and> \<not> list_ex inline_cat (concat grid)"
  then have "reads_as (PyList (map PyList grid)) grid" by (simp add: reads_as_grid)
  from build_reads_as [OF this, of False] a
  show "build_reply_markup (PyList (map PyList grid)) False =
        Inr (ReplyKeyboardMarkup (rows_of grid)
               (last_non_absent (map resize_of (concat grid)))
               (last_non_absent (map single_use_of (concat grid)))
               (last_non_absent (map selective_of (concat grid))))"
    by simp
next
  assume a: "concat grid \<noteq> [] \<and> list_all (list_all tagged) grid \<and> list_all inline_cat (concat grid)"
  then have "grid \<noteq> []" by auto
  with a have r: "reads_as (PyList (map PyList grid)) grid" by (simp add: reads_as_grid)
  from a have n: "\<not> list_ex (\<lambda>b. \<not> inline_cat b) (concat grid)"
    by (simp add: list_ex_iff list_all_iff)
  from a have e: "list_ex inline_cat (concat grid)"
    by (cases "concat grid") (simp_all del: concat_eq_Nil_conv)
  from build_reads_as [OF r, of io] n e
  show "build_reply_markup (PyList (map PyList grid)) io = Inr (ReplyInlineMarkup (rows_of grid))"
    by simp
next
  assume "list_all (list_all is_button) grid"
  then show "rows_of grid =
        map (\<lambda>r. KeyboardButtonRow (map unwrap r)) (filter (\<lambda>r. r \<noteq> []) grid)"
    by (rule rows_of_buttons)
next
  show "build_reply_markup
     (PyList [PyList [Button_text (str ''A'') None None None],
              PyList [Button_text (str ''B'') None None None,
                      Button_text (str ''C'') None None None]]) False =
     Inr (ReplyKeyboardMarkup
            [KeyboardButtonRow [KeyboardButton (str ''A'')],
             KeyboardButtonRow [KeyboardButton (str ''B''), KeyboardButton (str ''C'')]]
            None None None)"
    by (simp add: build_reply_markup_def Button_text_def normalize_def visit_row_def
          visit_button_def finish_def builder_init_def del: not_None_eq)
qed

theorem shapes_and_rows_witness:
  "build_reply_markup (Button_text (str ''A'') None None None) False =
     build_reply_markup (PyList [PyList [Button_text (str ''A'') None None None]]) False \<and>
   build_reply_markup (PyList [KeyboardButton (str ''A''), KeyboardButton (str ''B'')]) False =
     build_reply_markup
       (PyList [PyList [KeyboardButton (str ''A'')], PyList [KeyboardButton (str ''B'')]]) False \<and>
   build_reply_markup
     (PyList [PyList [KeyboardButton (str ''A'')], PyList [],
              PyList [Button (KeyboardButton (str ''B'')) None (Some True) None]]) False =
     Inr (ReplyKeyboardMarkup
            [KeyboardButtonRow [KeyboardButton (str ''A'')],
             KeyboardButtonRow [KeyboardButton (str ''B'')]] None (Some True) None) \<and>
   build_reply_markup
     (PyList [PyList [], PyList [KeyboardButtonGame (str ''G''), KeyboardButtonBuy (str ''P'')]])
     False =
     Inr (ReplyInlineMarkup
            [KeyboardButtonRow [KeyboardButtonGame (str ''G''), KeyboardButtonBuy (str ''P'')]])"
  using shapes_and_rows [of "Button_text (str ''A'') None None None" False
          "KeyboardButton (str ''A'')" "[KeyboardButton (str ''B'')]"
          "[[KeyboardButton (str ''A'')], [],
            [Button (KeyboardButton (str ''B'')) None (Some True) None]]"]
        shapes_and_rows [of "Button_text (str ''A'') None None None" False
          "KeyboardButton (str ''A'')" "[KeyboardButton (str ''B'')]"
          "[[], [KeyboardButtonGame (str ''G''), KeyboardButtonBuy (str ''P'')]]"]
  by (simp add: Button_text_def tagged_def inline_cat_def is_button_def last_non_absent_def
        del: not_None_eq)

end
